theory Spec2Isabelle
  imports Main "HOL-Library.Word"
begin

section \<open>Common values\<close>

text \<open>
  A Go byte slice is a list of bytes, a Go \<open>int\<close> is read by its mathematical value,
  and an \<open>error\<close> result is \<open>None\<close> for \<open>nil\<close>. The only error value the
  sources name is \<open>io.ErrClosedPipe\<close>; every other error is opaque.
\<close>

type_synonym bytes = "8 word list"

datatype error = ErrClosedPipe | OtherError string

text \<open>
  A call either returns a value or panics. Go panics unwind the calling function unless
  a deferred function recovers them, so every call that can panic is a branch of the
  model. Panic values are taken to be non-nil, which is what \<open>recover()\<close> reports for
  every panic raised by the runtime and by the HTTP engines.
\<close>

datatype 'a outcome = Returns 'a | Panics

section \<open>The completion signal (done.Instance)\<close>

text \<open>
  Modelled from the spec: package \<open>common/signal/done\<close> is not part of the sources at
  hand. The specification describes the completion signal as a single-fire, idempotent
  flag with \<open>close()\<close> (fire; only the first call has an effect) and a non-suspending
  check. The flag is the whole state of an instance.
\<close>

type_synonym done_Instance = bool

definition done_New :: done_Instance where
  "done_New = False"

definition Done :: "done_Instance \<Rightarrow> bool" where
  "Done d = d"

definition done_Close :: "done_Instance \<Rightarrow> done_Instance" where
  "done_Close d = True"

section \<open>The bridge writer (flushWriter)\<close>

text \<open>
  \<open>flushWriter\<close> holds an \<open>io.Writer\<close> and a pointer to the completion signal. The
  writer is an interface value: it is modelled by its behaviour on a sink state \<open>'s\<close>.
  \<open>w_Write\<close> is the sink's \<open>Write\<close>; \<open>w_Flush\<close> is \<open>Some\<close> exactly when the dynamic
  type of the writer also implements \<open>http.Flusher\<close>. Both calls may panic, and a
  panicking call may already have changed the sink.

  The state of one bridged stream is the sink state, the completion signal the writer
  points to, and the list of calls made on the sink so far (what a spy transport would
  record).
\<close>

datatype sink_call = CallWrite bytes | CallFlush

record 's writer =
  w_Write :: "'s \<Rightarrow> bytes \<Rightarrow> (int \<times> error option) outcome \<times> 's"
  w_Flush :: "('s \<Rightarrow> unit outcome \<times> 's) option"

record 's stream =
  st_sink :: 's
  st_done :: done_Instance
  st_calls :: "sink_call list"

text \<open>
  The frame of one \<open>Write\<close> call: the named results \<open>n\<close> and \<open>err\<close> (zero and nil
  on entry), whether the frame is panicking, and the stream state.
\<close>

record 's frame =
  fr_n :: int
  fr_err :: "error option"
  fr_panicking :: bool
  fr_state :: "'s stream"

definition sink_called :: "'s stream \<Rightarrow> sink_call \<Rightarrow> 's \<Rightarrow> 's stream" where
  "sink_called st c s' = st\<lparr>st_sink := s', st_calls := st_calls st @ [c]\<rparr>"

text \<open>
  The statements after the \<open>defer\<close>:
  \<^verbatim>\<open>
    n, err = fw.w.Write(p)
    if f, ok := fw.w.(http.Flusher); ok && err == nil {
        f.Flush()
    }
    return
  \<close>
  A panic in \<open>fw.w.Write\<close> leaves the named results unassigned.
\<close>

definition Write_body :: "'s writer \<Rightarrow> 's stream \<Rightarrow> bytes \<Rightarrow> 's frame" where
  "Write_body w st p =
     (case w_Write w (st_sink st) p of
        (Panics, s1) \<Rightarrow>
          \<lparr>fr_n = 0, fr_err = None, fr_panicking = True,
           fr_state = sink_called st (CallWrite p) s1\<rparr>
      | (Returns (n, err), s1) \<Rightarrow>
          (let st1 = sink_called st (CallWrite p) s1 in
           case w_Flush w of
             None \<Rightarrow> \<lparr>fr_n = n, fr_err = err, fr_panicking = False, fr_state = st1\<rparr>
           | Some f \<Rightarrow>
               if err = None then
                 (case f s1 of
                    (Panics, s2) \<Rightarrow>
                      \<lparr>fr_n = n, fr_err = err, fr_panicking = True,
                       fr_state = sink_called st1 CallFlush s2\<rparr>
                  | (Returns u, s2) \<Rightarrow>
                      \<lparr>fr_n = n, fr_err = err, fr_panicking = False,
                       fr_state = sink_called st1 CallFlush s2\<rparr>)
               else \<lparr>fr_n = n, fr_err = err, fr_panicking = False, fr_state = st1\<rparr>))"

text \<open>
  The deferred function:
  \<^verbatim>\<open>
    defer func() {
        if recover() != nil {
            fw.d.Close()
            err = io.ErrClosedPipe
        }
    }()
  \<close>
  \<open>recover()\<close> stops the panic of the frame and returns its value.
\<close>

definition Write_deferred :: "'s frame \<Rightarrow> 's frame" where
  "Write_deferred fr =
     (if fr_panicking fr then
        fr\<lparr>fr_panicking := False,
           fr_state := (fr_state fr)\<lparr>st_done := done_Close (st_done (fr_state fr))\<rparr>,
           fr_err := Some ErrClosedPipe\<rparr>
      else fr)"

text \<open>
  \<open>flushWriter.Write\<close>: the check of the completion signal comes before the
  \<open>defer\<close>; afterwards the body runs, then the deferred function, and the frame
  returns its named results unless it is still panicking.
\<close>

definition flushWriter_Write ::
  "'s writer \<Rightarrow> 's stream \<Rightarrow> bytes \<Rightarrow> (int \<times> error option) outcome \<times> 's stream" where
  "flushWriter_Write w st p =
     (if Done (st_done st) then (Returns (0, Some ErrClosedPipe), st)
      else
        (let fr = Write_deferred (Write_body w st p) in
         (if fr_panicking fr then Panics else Returns (fr_n fr, fr_err fr), fr_state fr)))"

text \<open>Sinks used to run the writer on concrete inputs.\<close>

text \<open>
  A sink over a torn-down transport: the state counts the calls that reached it, and
  every write panics.
\<close>

definition dead_sink :: "nat writer" where
  "dead_sink = \<lparr>w_Write = (\<lambda>s p. (Panics, Suc s)), w_Flush = None\<rparr>"

text \<open>
  A buffering sink that implements \<open>http.Flusher\<close>: the state is the pending buffer
  and the bytes delivered; a write of more than four bytes is cut short with an error.
\<close>

definition short_write :: error where
  "short_write = OtherError ''short write''"

definition buffered_sink :: "(bytes \<times> bytes) writer" where
  "buffered_sink =
     \<lparr>w_Write = (\<lambda>(pending, sent) p.
         if length p \<le> 4 then (Returns (int (length p), None), (pending @ p, sent))
         else (Returns (4, Some short_write), (pending @ take 4 p, sent))),
      w_Flush = Some (\<lambda>(pending, sent). (Returns (), ([], sent @ pending)))\<rparr>"

definition fresh_stream :: "'s \<Rightarrow> 's stream" where
  "fresh_stream s = \<lparr>st_sink = s, st_done = done_New, st_calls = []\<rparr>"

section \<open>Traffic counters (stats.Counter)\<close>

text \<open>
  Modelled from the spec: package \<open>features/stats\<close> is not part of the sources at hand.
  The specification describes stats counters as optional external objects exposing
  \<open>Add(delta int64)\<close>, absence (nil) being a valid no-counting state. A counter is an
  object behind an interface value, so two fields may hold the same counter: counters
  live in a store indexed by reference. The value of a counter is an \<open>int64\<close>, and
  \<open>Add\<close> adds the delta with the wrap-around of that type. The store also records
  every \<open>Add\<close> call, in order.
\<close>

type_synonym counter_ref = nat
type_synonym int64 = "64 word"

record counters =
  cnt_value :: "counter_ref \<Rightarrow> int64"
  cnt_adds :: "(counter_ref \<times> int64) list"

definition Counter_Add :: "counter_ref \<Rightarrow> int64 \<Rightarrow> counters \<Rightarrow> counters" where
  "Counter_Add r delta cs =
     cs\<lparr>cnt_value := (cnt_value cs)(r := cnt_value cs r + delta),
        cnt_adds := cnt_adds cs @ [(r, delta)]\<rparr>"

text \<open>The conversion \<open>int64(nBytes)\<close> of a Go \<open>int\<close>.\<close>

definition to_int64 :: "int \<Rightarrow> int64" where
  "to_int64 n = word_of_int n"

section \<open>The traffic-counting connection (NoCopyConnection)\<close>

text \<open>
  The embedded \<open>Connection\<close> is an interface value, modelled by the behaviour of its
  \<open>Read\<close> and \<open>Write\<close> on a connection state \<open>'c\<close>. \<open>Read\<close> receives the caller's
  buffer and hands it back as the call left it. Either call may panic.
\<close>

record 'c connection =
  conn_Read :: "'c \<Rightarrow> bytes \<Rightarrow> (int \<times> error option) outcome \<times> bytes \<times> 'c"
  conn_Write :: "'c \<Rightarrow> bytes \<Rightarrow> (int \<times> error option) outcome \<times> 'c"

record 'c NoCopyConnection =
  Connection :: "'c connection"
  ReadCounter :: "counter_ref option"
  WriteCounter :: "counter_ref option"

definition NoCopyConnection_Read ::
  "'c NoCopyConnection \<Rightarrow> 'c \<times> counters \<Rightarrow> bytes
     \<Rightarrow> (int \<times> error option) outcome \<times> bytes \<times> 'c \<times> counters" where
  "NoCopyConnection_Read c world b =
     (case world of (s, cs) \<Rightarrow>
        (case conn_Read (Connection c) s b of
           (Panics, b1, s1) \<Rightarrow> (Panics, b1, s1, cs)
         | (Returns (nBytes, err), b1, s1) \<Rightarrow>
             (Returns (nBytes, err), b1, s1,
              (case ReadCounter c of
                 Some r \<Rightarrow> Counter_Add r (to_int64 nBytes) cs
               | None \<Rightarrow> cs))))"

definition NoCopyConnection_Write ::
  "'c NoCopyConnection \<Rightarrow> 'c \<times> counters \<Rightarrow> bytes
     \<Rightarrow> (int \<times> error option) outcome \<times> 'c \<times> counters" where
  "NoCopyConnection_Write c world b =
     (case world of (s, cs) \<Rightarrow>
        (case conn_Write (Connection c) s b of
           (Panics, s1) \<Rightarrow> (Panics, s1, cs)
         | (Returns (nBytes, err), s1) \<Rightarrow>
             (Returns (nBytes, err), s1,
              (case WriteCounter c of
                 Some r \<Rightarrow> Counter_Add r (to_int64 nBytes) cs
               | None \<Rightarrow> cs))))"

text \<open>
  A caller's sequence of \<open>Read\<close> and \<open>Write\<close> calls. A call that panics unwinds the
  caller, so the sequence ends there. \<open>conn_run\<close> makes the calls on a connection
  directly, \<open>NoCopy_run\<close> through the counting wrapper; both list what each call that
  returned reported.
\<close>

datatype io_call = DoRead bytes | DoWrite bytes

datatype io_report = ReadReport int "error option" | WriteReport int "error option"

fun conn_run :: "'c connection \<Rightarrow> 'c \<Rightarrow> io_call list \<Rightarrow> io_report list \<times> 'c" where
  "conn_run k s [] = ([], s)"
| "conn_run k s (DoRead b # calls) =
     (case conn_Read k s b of
        (Panics, b1, s1) \<Rightarrow> ([], s1)
      | (Returns (n, err), b1, s1) \<Rightarrow>
          (case conn_run k s1 calls of (rs, s2) \<Rightarrow> (ReadReport n err # rs, s2)))"
| "conn_run k s (DoWrite b # calls) =
     (case conn_Write k s b of
        (Panics, s1) \<Rightarrow> ([], s1)
      | (Returns (n, err), s1) \<Rightarrow>
          (case conn_run k s1 calls of (rs, s2) \<Rightarrow> (WriteReport n err # rs, s2)))"

fun NoCopy_run ::
  "'c NoCopyConnection \<Rightarrow> 'c \<times> counters \<Rightarrow> io_call list \<Rightarrow> io_report list \<times> 'c \<times> counters" where
  "NoCopy_run c world [] = ([], world)"
| "NoCopy_run c world (DoRead b # calls) =
     (case NoCopyConnection_Read c world b of
        (Panics, b1, world1) \<Rightarrow> ([], world1)
      | (Returns (n, err), b1, world1) \<Rightarrow>
          (case NoCopy_run c world1 calls of (rs, world2) \<Rightarrow> (ReadReport n err # rs, world2)))"
| "NoCopy_run c world (DoWrite b # calls) =
     (case NoCopyConnection_Write c world b of
        (Panics, world1) \<Rightarrow> ([], world1)
      | (Returns (n, err), world1) \<Rightarrow>
          (case NoCopy_run c world1 calls of (rs, world2) \<Rightarrow> (WriteReport n err # rs, world2)))"

text \<open>The bytes the calls of a run reported as read and as written.\<close>

fun bytes_read :: "io_report list \<Rightarrow> int" where
  "bytes_read [] = 0"
| "bytes_read (ReadReport n err # rs) = n + bytes_read rs"
| "bytes_read (WriteReport n err # rs) = bytes_read rs"

fun bytes_written :: "io_report list \<Rightarrow> int" where
  "bytes_written [] = 0"
| "bytes_written (ReadReport n err # rs) = bytes_written rs"
| "bytes_written (WriteReport n err # rs) = n + bytes_written rs"

text \<open>
  A connection used to run the wrapper on concrete inputs. Its state is the input still
  to be read and the output accepted so far. A read delivers at most three bytes per
  call and reports \<open>EOF\<close> together with the last bytes; a write accepts at most two
  bytes and reports an error when it had to cut the data short.
\<close>

definition chunky_conn :: "(bytes \<times> bytes) connection" where
  "chunky_conn =
     \<lparr>conn_Read = (\<lambda>(inp, out) b.
         (let k = min 3 (min (length b) (length inp)) in
          (Returns (int k, if length inp \<le> k then Some (OtherError ''EOF'') else None),
           take k inp @ drop k b, (drop k inp, out)))),
      conn_Write = (\<lambda>(inp, out) b.
         (Returns (int (min 2 (length b)), if 2 < length b then Some short_write else None),
          (inp, out @ take 2 b)))\<rparr>"

definition zero_counters :: counters where
  "zero_counters = \<lparr>cnt_value = (\<lambda>r. 0), cnt_adds = []\<rparr>"

text \<open>
  The wrapper with two distinct counters, the wrapper without counters, and a sequence
  of calls in which one write fails after two bytes and one read reports its error
  together with its last bytes.
\<close>

definition counted_conn :: "(bytes \<times> bytes) NoCopyConnection" where
  "counted_conn = \<lparr>Connection = chunky_conn, ReadCounter = Some 1, WriteCounter = Some 2\<rparr>"

definition some_calls :: "io_call list" where
  "some_calls = [DoRead [0, 0, 0, 0], DoWrite [9, 9, 9], DoRead [0, 0, 0, 0], DoWrite [8]]"

definition uncounted_conn :: "(bytes \<times> bytes) NoCopyConnection" where
  "uncounted_conn = \<lparr>Connection = chunky_conn, ReadCounter = None, WriteCounter = None\<rparr>"

section \<open>Addresses\<close>

text \<open>
  \<open>net.Addr\<close> values: the sources build \<open>net.TCPAddr{IP, Port}\<close> and
  \<open>net.UnixAddr{Name, Net}\<close>; an engine may report a peer address of any other type.
\<close>

type_synonym IP = bytes
type_synonym Port = "16 word"

datatype Addr = TCPAddr IP int | UnixAddr string string | OtherAddr string

text \<open>
  Modelled from the spec: the address type of package \<open>common/net\<close> is not part of the
  sources at hand. The specification speaks of candidate addresses with an "is this a
  valid IP" predicate; an address is an IP address or a domain name,
  \<open>Family().IsIP()\<close> tells which, and the accessors \<open>IP()\<close> and \<open>Domain()\<close> do
  not return for an address of the other kind.
\<close>

datatype Address = IPAddress IP | DomainAddress string

fun Address_IsIP :: "Address \<Rightarrow> bool" where
  "Address_IsIP (IPAddress ip) = True"
| "Address_IsIP (DomainAddress d) = False"

fun Address_IP :: "Address \<Rightarrow> IP outcome" where
  "Address_IP (IPAddress ip) = Returns ip"
| "Address_IP (DomainAddress d) = Panics"

fun Address_Domain :: "Address \<Rightarrow> string outcome" where
  "Address_Domain (IPAddress ip) = Panics"
| "Address_Domain (DomainAddress d) = Returns d"

record Destination =
  dest_Address :: Address
  dest_Port :: Port

text \<open>
  The functions of other packages that the listener calls and whose code is not part of
  the sources at hand are parameters of the model: the parsers of package
  \<open>common/net\<close>, the forwarded-address header parser of package
  \<open>common/protocol/http\<close>, the normalisation that the HTTP engines apply to a header
  name before they store it, and \<open>serial.Concat\<close> applied to an address, a colon and
  a port.
\<close>

type_synonym header_map = "string \<Rightarrow> string list option"

record netlib =
  ParseAddress :: "string \<Rightarrow> Address"
  ParseDestination :: "string \<Rightarrow> error + Destination"
  DestinationFromAddr :: "Addr \<Rightarrow> Destination outcome"
  ParseXForwardedFor :: "header_map \<Rightarrow> Address list"
  CanonicalKey :: "string \<Rightarrow> string"
  serial_Concat :: "Address \<Rightarrow> Port \<Rightarrow> string"

section \<open>The listener and its configuration\<close>

text \<open>
  The \<open>Config\<close> type and its methods are declared outside the sources at hand. The
  handlers observe a configuration through \<open>isValidHost\<close>, \<open>getNormalizedPath\<close>
  and the \<open>Header\<close> field, a list of entries with a \<open>Name\<close> and a list \<open>Value\<close>
  of values; a configuration is represented by these three observations.
\<close>

record http_Header =
  Name :: string
  Value :: "string list"

record Config =
  isValidHost :: "string \<Rightarrow> bool"
  getNormalizedPath :: string
  Header :: "http_Header list"

text \<open>
  The \<open>Listener\<close> struct. The server engine is a pointer that \<open>Listen\<close> sets after
  the struct is built; the engine is described by the options it was created with and
  the middleware installed on it. The per-connection callback is opaque.
\<close>

datatype middleware = RealityServer string | ServerNbThenAbort

record Options =
  opt_Network :: string
  opt_Addr :: string
  opt_H2C :: bool
  opt_TLS :: "string option"
  opt_ReadTimeout_seconds :: nat

record Engine =
  eng_options :: Options
  eng_middleware :: "middleware list"

record 'h Listener =
  l_server :: "Engine option"
  l_handler :: 'h
  l_local :: Addr
  l_config :: Config

definition Listener_Addr :: "'h Listener \<Rightarrow> Addr" where
  "Listener_Addr l = l_local l"

section \<open>Requests, responses and the bridged connection\<close>

text \<open>
  The response of one request as the client observes it: the status written, the
  response headers (each name with the values sent for it, one header line per value),
  and whether the response has been flushed. The engine hands every request a fresh
  response.
\<close>

record response =
  resp_status :: "int option"
  resp_header :: header_map
  resp_flushed :: bool

definition fresh_response :: response where
  "fresh_response = \<lparr>resp_status = None, resp_header = Map.empty, resp_flushed = False\<rparr>"

text \<open>
  \<open>http.Header.Set\<close> of the standard library sets the entries of a key to the single
  given value, replacing any existing values. The request context's \<open>Header\<close> method
  is a shortcut for the same \<open>Set\<close> on the response header, except that an empty
  value deletes the header. (Names that an engine treats specially, such as cookies, are
  outside this model.)
\<close>

definition Header_Set :: "'x netlib_scheme \<Rightarrow> header_map \<Rightarrow> string \<Rightarrow> string \<Rightarrow> header_map" where
  "Header_Set nl h key v = h(CanonicalKey nl key \<mapsto> [v])"

definition ctx_Header :: "'x netlib_scheme \<Rightarrow> header_map \<Rightarrow> string \<Rightarrow> string \<Rightarrow> header_map" where
  "ctx_Header nl h key v =
     (if v = [] then h(CanonicalKey nl key := None) else h(CanonicalKey nl key \<mapsto> [v]))"

text \<open>
  The two nested loops over the configured headers, shared by both handlers up to the
  call that stores a value:
  \<^verbatim>\<open>
    for _, httpHeader := range l.config.Header {
        for _, httpHeaderValue := range httpHeader.Value {
            <store>(httpHeader.Name, httpHeaderValue)
        }
    }
  \<close>
\<close>

primrec range_Value ::
  "(header_map \<Rightarrow> string \<Rightarrow> string \<Rightarrow> header_map) \<Rightarrow> string \<Rightarrow> string list \<Rightarrow> header_map \<Rightarrow> header_map" where
  "range_Value store name [] h = h"
| "range_Value store name (httpHeaderValue # vs) h =
     range_Value store name vs (store h name httpHeaderValue)"

primrec range_Header ::
  "(header_map \<Rightarrow> string \<Rightarrow> string \<Rightarrow> header_map) \<Rightarrow> http_Header list \<Rightarrow> header_map \<Rightarrow> header_map" where
  "range_Header store [] h = h"
| "range_Header store (httpHeader # hs) h =
     range_Header store hs (range_Value store (Name httpHeader) (Value httpHeader) h)"

text \<open>How often a value is sent for a header name.\<close>

definition occurrences :: "header_map \<Rightarrow> string \<Rightarrow> string \<Rightarrow> nat" where
  "occurrences h name v = (case h name of None \<Rightarrow> 0 | Some vs \<Rightarrow> count_list vs v)"

text \<open>
  The connection a handler builds with \<open>cnc.NewConnection\<close> and passes to the
  per-connection callback: where its reads come from, the completion signal its
  \<open>flushWriter\<close> and its close action share, and its local and remote address.
\<close>

datatype body_reader = RequestBody | RequestBodyStream | BufferedBody

record Conn =
  conn_reader :: body_reader
  conn_done :: done_Instance
  conn_local :: Addr
  conn_remote :: Addr

datatype log_entry = LogEntry string "error option"

text \<open>
  What a handler has done when it reaches the wait for the completion signal or
  returns before: whether it got there without panicking, the response, the log
  entries written, and the connection passed to the callback (\<open>None\<close> when the
  callback was not invoked). The wait itself, and what the callback does with the
  connection, are not part of the model.
\<close>

record served =
  sv_outcome :: "unit outcome"
  sv_response :: response
  sv_log :: "log_entry list"
  sv_conn :: "Conn option"

definition strings_HasPrefix :: "string \<Rightarrow> string \<Rightarrow> bool" where
  "strings_HasPrefix s pre = (length pre \<le> length s \<and> take (length pre) s = pre)"

text \<open>
  \<open>bytes.Split\<close> and \<open>strings.Split\<close> with a separator of one byte: the pieces
  between the separators, in order; an input without separator is the only piece.
\<close>

fun Split :: "string \<Rightarrow> char \<Rightarrow> string list" where
  "Split [] sep = [[]]"
| "Split (c # cs) sep =
     (if c = sep then [] # Split cs sep
      else (case Split cs sep of
              piece # pieces \<Rightarrow> (c # piece) # pieces
            | [] \<Rightarrow> [[c]]))"

section \<open>The handler of the netpoll engine (serverNb)\<close>

text \<open>What \<open>serverNb\<close> reads from the engine's request context.\<close>

record RequestContext =
  rc_Host :: string
  rc_Path :: string
  rc_RemoteAddr :: Addr
  rc_XForwardedFor :: "string option"
  rc_IsBodyStream :: bool

text \<open>
  The loop over the entries of the forwarded-address header:
  \<^verbatim>\<open>
    for _, proxy := range list {
        addr := net.ParseAddress(string(proxy))
        if addr.Family().IsIP() {
            remoteAddr = &net.TCPAddr{IP: addr.IP(), Port: 0}
            break
        }
    }
  \<close>
\<close>

fun range_list :: "(string \<Rightarrow> Address) \<Rightarrow> string list \<Rightarrow> Addr \<Rightarrow> Addr" where
  "range_list parse [] remoteAddr = remoteAddr"
| "range_list parse (proxy # list) remoteAddr =
     (case parse proxy of
        IPAddress ip \<Rightarrow> TCPAddr ip 0
      | DomainAddress d \<Rightarrow> range_list parse list remoteAddr)"

definition serverNb_rejected :: served where
  "serverNb_rejected =
     \<lparr>sv_outcome = Returns (), sv_response = fresh_response\<lparr>resp_status := Some 404\<rparr>,
      sv_log = [], sv_conn = None\<rparr>"

definition serverNb :: "'x netlib_scheme \<Rightarrow> 'h Listener \<Rightarrow> RequestContext \<Rightarrow> served" where
  "serverNb nl l c =
     (if \<not> isValidHost (l_config l) (rc_Host c) then serverNb_rejected
      else if \<not> strings_HasPrefix (rc_Path c) (getNormalizedPath (l_config l)) then serverNb_rejected
      else
        (let h1 = ctx_Header nl (resp_header fresh_response) ''Cache-Control'' ''no-store'';
             h2 = range_Header (ctx_Header nl) (Header (l_config l)) h1;
             w = \<lparr>resp_status = Some 200, resp_header = h2, resp_flushed = True\<rparr>;
             panicked = \<lparr>sv_outcome = Panics, sv_response = w, sv_log = [], sv_conn = None\<rparr>
         in case DestinationFromAddr nl (rc_RemoteAddr c) of
              Panics \<Rightarrow> panicked
            | Returns dest \<Rightarrow>
                (case Address_IP (dest_Address dest) of
                   Panics \<Rightarrow> panicked
                 | Returns ip \<Rightarrow>
                     (let remoteAddr = TCPAddr ip (uint (dest_Port dest));
                          remoteAddr' =
                            (case rc_XForwardedFor c of
                               None \<Rightarrow> remoteAddr
                             | Some xff \<Rightarrow> range_list (ParseAddress nl) (Split xff CHR '','') remoteAddr)
                      in \<lparr>sv_outcome = Returns (), sv_response = w, sv_log = [],
                          sv_conn = Some \<lparr>conn_reader = (if rc_IsBodyStream c then RequestBodyStream
                                                           else BufferedBody),
                                          conn_done = done_New,
                                          conn_local = Listener_Addr l,
                                          conn_remote = remoteAddr'\<rparr>\<rparr>))))"

section \<open>The handler of the standard engine (ServeHTTP)\<close>

text \<open>
  What \<open>ServeHTTP\<close> reads from the request, and whether the response writer it is
  given implements \<open>http.Flusher\<close>.
\<close>

record Request =
  Host :: string
  URL_Path :: string
  RemoteAddr :: string
  req_Header :: header_map

definition ServeHTTP_rejected :: served where
  "ServeHTTP_rejected =
     \<lparr>sv_outcome = Returns (), sv_response = fresh_response\<lparr>resp_status := Some 404\<rparr>,
      sv_log = [], sv_conn = None\<rparr>"

definition ServeHTTP :: "'x netlib_scheme \<Rightarrow> 'h Listener \<Rightarrow> bool \<Rightarrow> Request \<Rightarrow> served" where
  "ServeHTTP nl l writer_is_Flusher request =
     (if \<not> isValidHost (l_config l) (Host request) then ServeHTTP_rejected
      else if \<not> strings_HasPrefix (URL_Path request) (getNormalizedPath (l_config l))
        then ServeHTTP_rejected
      else
        (let h1 = Header_Set nl (resp_header fresh_response) ''Cache-Control'' ''no-store'';
             h2 = range_Header (Header_Set nl) (Header (l_config l)) h1;
             w = \<lparr>resp_status = Some 200, resp_header = h2, resp_flushed = writer_is_Flusher\<rparr>;
             forwardedAddress = ParseXForwardedFor nl (req_Header request);
             override = (\<lambda>remoteAddr.
                (case forwardedAddress of
                   [] \<Rightarrow> remoteAddr
                 | first # rest \<Rightarrow>
                     (case first of
                        IPAddress ip \<Rightarrow> TCPAddr ip 0
                      | DomainAddress d \<Rightarrow> remoteAddr)));
             deliver = (\<lambda>lg remoteAddr.
                \<lparr>sv_outcome = Returns (), sv_response = w, sv_log = lg,
                 sv_conn = Some \<lparr>conn_reader = RequestBody, conn_done = done_New,
                                 conn_local = Listener_Addr l,
                                 conn_remote = override remoteAddr\<rparr>\<rparr>)
         in case ParseDestination nl (RemoteAddr request) of
              Inl err \<Rightarrow>
                deliver [LogEntry (''failed to parse request remote addr: '' @ RemoteAddr request) (Some err)]
                  (Listener_Addr l)
            | Inr dest \<Rightarrow>
                (case Address_IP (dest_Address dest) of
                   Panics \<Rightarrow> \<lparr>sv_outcome = Panics, sv_response = w, sv_log = [], sv_conn = None\<rparr>
                 | Returns ip \<Rightarrow> deliver [] (TCPAddr ip (uint (dest_Port dest))))))"

section \<open>The listen entry point (Listen)\<close>

text \<open>
  \<open>ProtocolSettings\<close> is an interface value: it holds the listener's \<open>*Config\<close>,
  a value of another type, or nil. The results of \<open>tls.ConfigFromStreamSettings\<close> and
  \<open>reality.ConfigFromStreamSettings\<close> on the stream settings (nil or a configuration,
  which is opaque here) are given with the settings, since both functions are outside
  the sources at hand. \<open>streamSettings\<close> and \<open>SocketSettings\<close> are pointers.
  The engine option \<open>opt_TLS\<close> names the configuration from which
  \<open>GetTLSConfig(tls.WithNextProto("h2"))\<close> derives the TLS settings, and the
  middleware \<open>RealityServer\<close> the configuration it hands to \<open>goreality.Server\<close>.
\<close>

datatype protocol_settings = HTTPConfig Config | ForeignSettings string | NilSettings

record SocketConfig =
  AcceptProxyProtocol :: bool

record MemoryStreamConfig =
  ProtocolSettings :: protocol_settings
  tls_ConfigFromStreamSettings :: "string option"
  reality_ConfigFromStreamSettings :: "string option"
  SocketSettings :: "SocketConfig option"

text \<open>
  What a call of \<open>Listen\<close> that returns hands back and has done: the two results,
  the log entries written, and whether the goroutine that runs the server engine has
  been started. What that goroutine does (binding the address, serving, logging the
  error \<open>Run\<close> ends with) happens after \<open>Listen\<close> has returned and is not part of
  the model.
\<close>

record 'h listened =
  ls_listener :: "'h Listener option"
  ls_err :: "error option"
  ls_log :: "log_entry list"
  ls_started :: bool

definition Listen ::
  "'x netlib_scheme \<Rightarrow> Address \<Rightarrow> Port \<Rightarrow> MemoryStreamConfig option \<Rightarrow> 'h \<Rightarrow> 'h listened outcome" where
  "Listen nl address port streamSettings handler =
     (case streamSettings of
        None \<Rightarrow> Panics
      | Some ss \<Rightarrow>
          (case ProtocolSettings ss of
             ForeignSettings t \<Rightarrow> Panics
           | NilSettings \<Rightarrow> Panics
           | HTTPConfig httpSettings \<Rightarrow>
               (case (if port = 0 then
                        (case Address_Domain address of
                           Panics \<Rightarrow> Panics
                         | Returns name \<Rightarrow> Returns (''unix'', name, UnixAddr name ''unix''))
                      else
                        (case Address_IP address of
                           Panics \<Rightarrow> Panics
                         | Returns ip \<Rightarrow>
                             Returns (''tcp'', serial_Concat nl address port, TCPAddr ip (uint port)))) of
                  Panics \<Rightarrow> Panics
                | Returns (network, addr, local) \<Rightarrow>
                    (let config = tls_ConfigFromStreamSettings ss;
                         opt = \<lparr>opt_Network = network, opt_Addr = addr,
                                opt_H2C = (config = None),
                                opt_TLS = config,
                                opt_ReadTimeout_seconds = 4\<rparr>;
                         middler =
                           (case config of
                              None \<Rightarrow>
                                (case reality_ConfigFromStreamSettings ss of
                                   Some realcfg \<Rightarrow> [RealityServer realcfg]
                                 | None \<Rightarrow> [])
                            | Some c \<Rightarrow> []) @ [ServerNbThenAbort];
                         lg =
                           (case SocketSettings ss of
                              None \<Rightarrow> []
                            | Some so \<Rightarrow>
                                if AcceptProxyProtocol so then [LogEntry ''accepting PROXY protocol'' None]
                                else []);
                         listener = \<lparr>l_server = Some \<lparr>eng_options = opt, eng_middleware = middler\<rparr>,
                                     l_handler = handler, l_local = local, l_config = httpSettings\<rparr>
                     in Returns \<lparr>ls_listener = Some listener, ls_err = None, ls_log = lg,
                                 ls_started = True\<rparr>))))"

definition returns_error :: "'h listened outcome \<Rightarrow> bool" where
  "returns_error r = (case r of Panics \<Rightarrow> False | Returns x \<Rightarrow> ls_err x \<noteq> None)"

section \<open>An instance of the parameters\<close>

text \<open>
  To run the handlers and \<open>Listen\<close> on concrete inputs, the parameters are
  instantiated by parsers for dotted-decimal IPv4 addresses and \<open>host:port\<close> pairs.
  Header names are stored as given: the names used below are in canonical form.
\<close>

definition digit :: "char \<Rightarrow> nat option" where
  "digit c = (let n = (of_char c :: nat) in if 48 \<le> n \<and> n \<le> 57 then Some (n - 48) else None)"

fun decimal :: "string \<Rightarrow> nat \<Rightarrow> nat option" where
  "decimal [] acc = Some acc"
| "decimal (c # cs) acc = (case digit c of None \<Rightarrow> None | Some d \<Rightarrow> decimal cs (10 * acc + d))"

definition octet :: "string \<Rightarrow> 8 word option" where
  "octet s =
     (if s = [] \<or> 3 < length s then None
      else (case decimal s 0 of
              None \<Rightarrow> None
            | Some n \<Rightarrow> if n \<le> 255 then Some (of_nat n) else None))"

definition ParseIPv4 :: "string \<Rightarrow> IP option" where
  "ParseIPv4 s =
     (case map octet (Split s CHR ''.'') of
        [Some a, Some b, Some c, Some d] \<Rightarrow> Some [a, b, c, d]
      | _ \<Rightarrow> None)"

definition TrimSpace :: "string \<Rightarrow> string" where
  "TrimSpace s = rev (dropWhile (\<lambda>c. c = CHR '' '') (rev (dropWhile (\<lambda>c. c = CHR '' '') s)))"

definition std_ParseAddress :: "string \<Rightarrow> Address" where
  "std_ParseAddress s =
     (case ParseIPv4 (TrimSpace s) of
        Some ip \<Rightarrow> IPAddress ip
      | None \<Rightarrow> DomainAddress (TrimSpace s))"

definition std_ParseDestination :: "string \<Rightarrow> error + Destination" where
  "std_ParseDestination s =
     (case Split s CHR '':'' of
        [host, port] \<Rightarrow>
          (case decimal port 0 of
             None \<Rightarrow> Inl (OtherError ''invalid port'')
           | Some n \<Rightarrow>
               if port = [] \<or> 65535 < n then Inl (OtherError ''invalid port'')
               else Inr \<lparr>dest_Address = std_ParseAddress host, dest_Port = of_nat n\<rparr>)
      | _ \<Rightarrow> Inl (OtherError ''missing port''))"

definition std_DestinationFromAddr :: "Addr \<Rightarrow> Destination outcome" where
  "std_DestinationFromAddr a =
     (case a of
        TCPAddr ip port \<Rightarrow> Returns \<lparr>dest_Address = IPAddress ip, dest_Port = of_int port\<rparr>
      | UnixAddr name net \<Rightarrow> Returns \<lparr>dest_Address = DomainAddress name, dest_Port = 0\<rparr>
      | OtherAddr t \<Rightarrow> Panics)"

text \<open>
  Modelled from the spec: the forwarded-address header parser of package
  \<open>common/protocol/http\<close> is not part of the sources at hand. The specification
  describes it as returning, for the raw header values, an ordered sequence of candidate
  addresses: the value of the \<open>X-Forwarded-For\<close> header is split on commas and each
  entry is parsed as an address; an absent or empty header gives no candidates.
\<close>

definition std_ParseXForwardedFor :: "header_map \<Rightarrow> Address list" where
  "std_ParseXForwardedFor h =
     (case h ''X-Forwarded-For'' of
        None \<Rightarrow> []
      | Some [] \<Rightarrow> []
      | Some (xff # others) \<Rightarrow>
          if xff = [] then [] else map std_ParseAddress (Split xff CHR '',''))"

fun show_nat :: "nat \<Rightarrow> string" where
  "show_nat n =
     (if n < 10 then [''0123456789'' ! n]
      else show_nat (n div 10) @ [''0123456789'' ! (n mod 10)])"

declare show_nat.simps [simp del]

fun show_IP :: "IP \<Rightarrow> string" where
  "show_IP [] = []"
| "show_IP [b] = show_nat (unat b)"
| "show_IP (b # bs) = show_nat (unat b) @ ''.'' @ show_IP bs"

definition std_serial_Concat :: "Address \<Rightarrow> Port \<Rightarrow> string" where
  "std_serial_Concat a port =
     (case a of IPAddress ip \<Rightarrow> show_IP ip | DomainAddress d \<Rightarrow> d) @ '':'' @ show_nat (unat port)"

definition std_net :: netlib where
  "std_net =
     \<lparr>ParseAddress = std_ParseAddress,
      ParseDestination = std_ParseDestination,
      DestinationFromAddr = std_DestinationFromAddr,
      ParseXForwardedFor = std_ParseXForwardedFor,
      CanonicalKey = (\<lambda>key. key),
      serial_Concat = std_serial_Concat\<rparr>"

text \<open>
  A listener on \<open>192.0.2.1:443\<close> that admits host \<open>example.com\<close> under the path
  prefix \<open>/stream\<close> and is configured with one extra header of two values.
\<close>

definition example_config :: Config where
  "example_config =
     \<lparr>isValidHost = (\<lambda>host. host = ''example.com''),
      getNormalizedPath = ''/stream'',
      Header = [\<lparr>Name = ''X-Extra'', Value = [''a'', ''b'']\<rparr>]\<rparr>"

definition example_listener :: "unit Listener" where
  "example_listener =
     \<lparr>l_server = None, l_handler = (), l_local = TCPAddr [192, 0, 2, 1] 443,
      l_config = example_config\<rparr>"

definition example_request :: Request where
  "example_request =
     \<lparr>Host = ''example.com'', URL_Path = ''/stream/1'', RemoteAddr = ''198.51.100.7:4444'',
      req_Header = Map.empty\<rparr>"

definition example_context :: RequestContext where
  "example_context =
     \<lparr>rc_Host = ''example.com'', rc_Path = ''/stream/1'',
      rc_RemoteAddr = TCPAddr [198, 51, 100, 7] 4444,
      rc_XForwardedFor = None, rc_IsBodyStream = True\<rparr>"

definition example_settings :: MemoryStreamConfig where
  "example_settings =
     \<lparr>ProtocolSettings = HTTPConfig example_config,
      tls_ConfigFromStreamSettings = None,
      reality_ConfigFromStreamSettings = None,
      SocketSettings = None\<rparr>"

text \<open>
  What a rejected request leaves behind: status 404, no response header, nothing
  flushed, nothing logged, and no connection passed to the callback.
\<close>

definition request_rejected :: served where
  "request_rejected =
     \<lparr>sv_outcome = Returns (),
      sv_response = \<lparr>resp_status = Some 404, resp_header = Map.empty, resp_flushed = False\<rparr>,
      sv_log = [], sv_conn = None\<rparr>"

text \<open>
  The example requests with a forwarded-address header of a given value, and the remote
  address of the connection a handler passed to the callback.
\<close>

definition forwarded_context :: "string \<Rightarrow> RequestContext" where
  "forwarded_context xff = example_context\<lparr>rc_XForwardedFor := Some xff\<rparr>"

definition forwarded_request :: "string \<Rightarrow> Request" where
  "forwarded_request xff = example_request\<lparr>req_Header := [''X-Forwarded-For'' \<mapsto> [xff]]\<rparr>"

definition remote_of :: "served \<Rightarrow> Addr option" where
  "remote_of sv = map_option conn_remote (sv_conn sv)"

text \<open>Stream settings whose protocol settings belong to another transport.\<close>

definition foreign_settings :: MemoryStreamConfig where
  "foreign_settings = example_settings\<lparr>ProtocolSettings := ForeignSettings ''websocket.Config''\<rparr>"

text \<open>
  Whether the stream settings are present and hold this transport's \<open>*Config\<close>, and
  the local address of the listener a call of \<open>Listen\<close> returned.
\<close>

definition has_HTTPConfig :: "MemoryStreamConfig option \<Rightarrow> bool" where
  "has_HTTPConfig streamSettings =
     (case streamSettings of
        None \<Rightarrow> False
      | Some ss \<Rightarrow>
          (case ProtocolSettings ss of
             HTTPConfig httpSettings \<Rightarrow> True
           | ForeignSettings t \<Rightarrow> False
           | NilSettings \<Rightarrow> False))"

definition local_of :: "'h listened outcome \<Rightarrow> Addr option" where
  "local_of r = (case r of Panics \<Rightarrow> None | Returns x \<Rightarrow> map_option l_local (ls_listener x))"

text \<open>
  The example listener bound to a local socket, as the port-0 branch of \<open>Listen\<close>
  builds it, with a request whose peer is a local-socket address; and the example
  request with a peer address that does not parse.
\<close>

definition unix_listener :: "unit Listener" where
  "unix_listener = example_listener\<lparr>l_local := UnixAddr ''/run/xray.sock'' ''unix''\<rparr>"

definition unix_context :: RequestContext where
  "unix_context = example_context\<lparr>rc_RemoteAddr := UnixAddr ''@'' ''unix''\<rparr>"

definition unparsed_request :: Request where
  "unparsed_request = example_request\<lparr>RemoteAddr := ''@''\<rparr>"

section \<open>Properties of the bridge writer\<close>

lemma Write_deferred_not_panicking: "\<not> fr_panicking (Write_deferred fr)"
  by (simp add: Write_deferred_def)

lemma flushWriter_Write_returns: "fst (flushWriter_Write w st p) \<noteq> Panics"
  by (simp add: flushWriter_Write_def Let_def Write_deferred_not_panicking)

text \<open>
  C1. While the completion signal has not fired, a panic of the sink's write does not
  leave \<open>Write\<close>: the call returns zero bytes and the closed-pipe error, and the
  completion signal has fired afterwards, so that every later write on the stream
  returns the closed-pipe error as well.
\<close>

theorem flushWriter_Write_recovers_panic:
  assumes "\<not> Done (st_done st)"
    and "fst (w_Write w (st_sink st) p) = Panics"
  shows "\<exists>st'. flushWriter_Write w st p = (Returns (0, Some ErrClosedPipe), st')
           \<and> Done (st_done st')
           \<and> flushWriter_Write w st' q = (Returns (0, Some ErrClosedPipe), st')"
proof -
  obtain s1 where w: "w_Write w (st_sink st) p = (Panics, s1)"
    using assms(2) by (cases "w_Write w (st_sink st) p") auto
  define st' where "st' = (sink_called st (CallWrite p) s1)\<lparr>st_done := True\<rparr>"
  have "flushWriter_Write w st p = (Returns (0, Some ErrClosedPipe), st')"
    using assms(1) w
    by (simp add: flushWriter_Write_def Write_body_def Write_deferred_def Let_def
        done_Close_def st'_def)
  moreover have "Done (st_done st')"
    by (simp add: st'_def Done_def)
  moreover have "flushWriter_Write w st' q = (Returns (0, Some ErrClosedPipe), st')"
    by (simp add: flushWriter_Write_def st'_def Done_def)
  ultimately show ?thesis by blast
qed

theorem flushWriter_Write_recovers_panic_witness:
  "\<not> Done (st_done (fresh_stream (0::nat)))
   \<and> fst (w_Write dead_sink (st_sink (fresh_stream 0)) [1, 2]) = Panics
   \<and> (\<exists>st'. flushWriter_Write dead_sink (fresh_stream 0) [1, 2]
               = (Returns (0, Some ErrClosedPipe), st')
           \<and> Done (st_done st')
           \<and> flushWriter_Write dead_sink st' [3] = (Returns (0, Some ErrClosedPipe), st'))"
proof -
  have h1: "\<not> Done (st_done (fresh_stream (0::nat)))"
    by (simp add: fresh_stream_def done_New_def Done_def)
  have h2: "fst (w_Write dead_sink (st_sink (fresh_stream 0)) [1, 2]) = Panics"
    by (simp add: dead_sink_def)
  show ?thesis
    using h1 h2 flushWriter_Write_recovers_panic [OF h1 h2, of "[3]"] by simp
qed

text \<open>
  C2. Once the completion signal has fired, \<open>Write\<close> returns zero bytes and the
  closed-pipe error and leaves the stream as it was: the sink state is the same and no
  call on the sink has been made.
\<close>

theorem flushWriter_Write_after_done:
  assumes "Done (st_done st)"
  shows "flushWriter_Write w st p = (Returns (0, Some ErrClosedPipe), st)"
  using assms by (simp add: flushWriter_Write_def)

theorem flushWriter_Write_after_done_witness:
  "Done (st_done ((fresh_stream ([], []))\<lparr>st_done := done_Close done_New\<rparr>))
   \<and> flushWriter_Write buffered_sink
       ((fresh_stream ([], []))\<lparr>st_done := done_Close done_New\<rparr>) [7, 8]
     = (Returns (0, Some ErrClosedPipe),
        \<lparr>st_sink = ([], []), st_done = True, st_calls = []\<rparr>)"
proof -
  have h: "Done (st_done ((fresh_stream (([], [])::bytes \<times> bytes))\<lparr>st_done := done_Close done_New\<rparr>))"
    by (simp add: Done_def done_Close_def)
  show ?thesis
    using h flushWriter_Write_after_done [OF h, of buffered_sink "[7, 8]"]
    by (simp add: fresh_stream_def done_Close_def)
qed

text \<open>
  C9. While the completion signal has not fired and the sink's write returns, the calls
  made on the sink are the write and, directly after it, one flush exactly when the
  write reported no error and the sink supports flushing; the flush acts on the sink as
  the write left it. In every other case the write is the only call.
\<close>

theorem flushWriter_Write_flushes_after_success:
  assumes "\<not> Done (st_done st)"
    and "w_Write w (st_sink st) p = (Returns (n, err), s1)"
  shows "st_calls (snd (flushWriter_Write w st p))
           = st_calls st @ CallWrite p # (if err = None \<and> w_Flush w \<noteq> None then [CallFlush] else [])
         \<and> st_sink (snd (flushWriter_Write w st p))
           = (case w_Flush w of
                Some f \<Rightarrow> if err = None then snd (f s1) else s1
              | None \<Rightarrow> s1)"
  using assms
  by (cases "w_Flush w")
     (auto simp: flushWriter_Write_def Write_body_def Write_deferred_def Let_def
        sink_called_def split: prod.splits outcome.splits)

theorem flushWriter_Write_flushes_after_success_witness:
  "\<not> Done (st_done (fresh_stream ([], [])))
   \<and> w_Write buffered_sink (st_sink (fresh_stream ([], []))) [1, 2] = (Returns (2, None), ([1, 2], []))
   \<and> st_calls (snd (flushWriter_Write buffered_sink (fresh_stream ([], [])) [1, 2]))
       = [CallWrite [1, 2], CallFlush]
   \<and> st_sink (snd (flushWriter_Write buffered_sink (fresh_stream ([], [])) [1, 2])) = ([], [1, 2])
   \<and> w_Write buffered_sink (st_sink (fresh_stream ([], []))) [1, 2, 3, 4, 5]
       = (Returns (4, Some short_write), ([1, 2, 3, 4], []))
   \<and> st_calls (snd (flushWriter_Write buffered_sink (fresh_stream ([], [])) [1, 2, 3, 4, 5]))
       = [CallWrite [1, 2, 3, 4, 5]]
   \<and> st_sink (snd (flushWriter_Write buffered_sink (fresh_stream ([], [])) [1, 2, 3, 4, 5]))
       = ([1, 2, 3, 4], [])"
proof -
  have h1: "\<not> Done (st_done (fresh_stream (([], [])::bytes \<times> bytes)))"
    by (simp add: fresh_stream_def done_New_def Done_def)
  have h2: "w_Write buffered_sink (st_sink (fresh_stream ([], []))) [1, 2]
              = (Returns (2, None), ([1, 2], []))"
    by (simp add: buffered_sink_def fresh_stream_def)
  have h3: "w_Write buffered_sink (st_sink (fresh_stream ([], []))) [1, 2, 3, 4, 5]
              = (Returns (4, Some short_write), ([1, 2, 3, 4], []))"
    by (simp add: buffered_sink_def fresh_stream_def)
  show ?thesis
    using h1 h2 h3 flushWriter_Write_flushes_after_success [OF h1 h2]
      flushWriter_Write_flushes_after_success [OF h1 h3]
    by (simp add: buffered_sink_def fresh_stream_def)
qed

section \<open>Properties of the traffic-counting connection\<close>

lemma Counter_Add_value:
  "cnt_value (Counter_Add r d cs) x = cnt_value cs x + (if x = r then d else 0)"
  by (simp add: Counter_Add_def)

lemma to_int64_add: "to_int64 (a + b) = to_int64 a + to_int64 b"
  by (simp add: to_int64_def)

lemma to_int64_zero: "to_int64 0 = 0"
  by (simp add: to_int64_def)


lemma sint_to_int64: "- (2 ^ 63) \<le> n \<Longrightarrow> n < 2 ^ 63 \<Longrightarrow> sint (to_int64 n) = n"
  by (simp add: to_int64_def sint_sbintrunc' signed_take_bit_int_eq_self)

lemma NoCopy_run_reports:
  "fst (NoCopy_run c world calls) = fst (conn_run (Connection c) (fst world) calls)
   \<and> fst (snd (NoCopy_run c world calls)) = snd (conn_run (Connection c) (fst world) calls)"
proof (induction calls arbitrary: world)
  case Nil
  show ?case by simp
next
  case (Cons a calls)
  show ?case
  proof (cases a)
    case (DoRead b)
    then show ?thesis
      by (simp add: NoCopyConnection_Read_def case_prod_beta Cons.IH split: outcome.splits)
  next
    case (DoWrite b)
    then show ?thesis
      by (simp add: NoCopyConnection_Write_def case_prod_beta Cons.IH split: outcome.splits)
  qed
qed

lemma NoCopy_run_counters:
  "cnt_value (snd (snd (NoCopy_run c world calls))) x
     = cnt_value (snd world) x
       + (if ReadCounter c = Some x then to_int64 (bytes_read (fst (conn_run (Connection c) (fst world) calls))) else 0)
       + (if WriteCounter c = Some x then to_int64 (bytes_written (fst (conn_run (Connection c) (fst world) calls))) else 0)"
proof (induction calls arbitrary: world)
  case Nil
  show ?case by (simp add: to_int64_zero)
next
  case (Cons a calls)
  show ?case
  proof (cases a)
    case (DoRead b)
    then show ?thesis
      by (simp add: NoCopyConnection_Read_def case_prod_beta Cons.IH Counter_Add_value to_int64_add to_int64_zero
          split: outcome.splits option.splits)
  next
    case (DoWrite b)
    then show ?thesis
      by (simp add: NoCopyConnection_Write_def case_prod_beta Cons.IH Counter_Add_value to_int64_add to_int64_zero
          split: outcome.splits option.splits)
  qed
qed


text \<open>
  C6. After any sequence of \<open>Read\<close> and \<open>Write\<close> calls through the wrapper, every
  counter holds its earlier value plus the byte counts that the wrapped connection
  reported for the reads (if it is the read counter) and for the writes (if it is the
  write counter), whatever error came with a count; the sum is that of \<open>int64\<close>.
  Hence with two distinct counters that start at zero, and totals within the range of
  \<open>int64\<close>, the read counter equals the bytes read and the write counter the bytes
  written.
\<close>

theorem NoCopy_counters_count_reported_bytes:
  fixes c :: "'c NoCopyConnection"
  defines "reports \<equiv> \<lambda>s calls. fst (conn_run (Connection c) s calls)"
  shows "(\<forall>x. cnt_value (snd (snd (NoCopy_run c (s, cs) calls))) x
            = cnt_value cs x
              + (if ReadCounter c = Some x then to_int64 (bytes_read (reports s calls)) else 0)
              + (if WriteCounter c = Some x then to_int64 (bytes_written (reports s calls)) else 0))
         \<and> (\<forall>r w. ReadCounter c = Some r \<and> WriteCounter c = Some w \<and> r \<noteq> w
                 \<and> cnt_value cs r = 0 \<and> cnt_value cs w = 0
                 \<and> 0 \<le> bytes_read (reports s calls) \<and> bytes_read (reports s calls) < 2 ^ 63
                 \<and> 0 \<le> bytes_written (reports s calls) \<and> bytes_written (reports s calls) < 2 ^ 63
               \<longrightarrow> sint (cnt_value (snd (snd (NoCopy_run c (s, cs) calls))) r) = bytes_read (reports s calls)
                 \<and> sint (cnt_value (snd (snd (NoCopy_run c (s, cs) calls))) w) = bytes_written (reports s calls))"
proof -
  have eq: "cnt_value (snd (snd (NoCopy_run c (s, cs) calls))) x
            = cnt_value cs x
              + (if ReadCounter c = Some x then to_int64 (bytes_read (reports s calls)) else 0)
              + (if WriteCounter c = Some x then to_int64 (bytes_written (reports s calls)) else 0)" for x
    using NoCopy_run_counters [of c "(s, cs)" calls x] by (simp add: reports_def)
  show ?thesis
  proof (intro conjI allI impI)
    fix x show "cnt_value (snd (snd (NoCopy_run c (s, cs) calls))) x
            = cnt_value cs x
              + (if ReadCounter c = Some x then to_int64 (bytes_read (reports s calls)) else 0)
              + (if WriteCounter c = Some x then to_int64 (bytes_written (reports s calls)) else 0)"
      by (rule eq)
  next
    fix r w
    assume h: "ReadCounter c = Some r \<and> WriteCounter c = Some w \<and> r \<noteq> w
                 \<and> cnt_value cs r = 0 \<and> cnt_value cs w = 0
                 \<and> 0 \<le> bytes_read (reports s calls) \<and> bytes_read (reports s calls) < 2 ^ 63
                 \<and> 0 \<le> bytes_written (reports s calls) \<and> bytes_written (reports s calls) < 2 ^ 63"
    then show "sint (cnt_value (snd (snd (NoCopy_run c (s, cs) calls))) r) = bytes_read (reports s calls)"
      using eq [of r] by (simp add: sint_to_int64)
  next
    fix r w
    assume h: "ReadCounter c = Some r \<and> WriteCounter c = Some w \<and> r \<noteq> w
                 \<and> cnt_value cs r = 0 \<and> cnt_value cs w = 0
                 \<and> 0 \<le> bytes_read (reports s calls) \<and> bytes_read (reports s calls) < 2 ^ 63
                 \<and> 0 \<le> bytes_written (reports s calls) \<and> bytes_written (reports s calls) < 2 ^ 63"
    then show "sint (cnt_value (snd (snd (NoCopy_run c (s, cs) calls))) w) = bytes_written (reports s calls)"
      using eq [of w] by (simp add: sint_to_int64)
  qed
qed

lemma some_calls_reports:
  "fst (conn_run chunky_conn ([1, 2, 3, 4, 5], []) some_calls)
     = [ReadReport 3 None, WriteReport 2 (Some short_write), ReadReport 2 (Some (OtherError ''EOF'')), WriteReport 1 None]"
  by (simp add: some_calls_def chunky_conn_def)


theorem NoCopy_counters_count_reported_bytes_witness:
  "sint (cnt_value (snd (snd (NoCopy_run counted_conn (([1, 2, 3, 4, 5], []), zero_counters) some_calls))) 1) = 5
   \<and> sint (cnt_value (snd (snd (NoCopy_run counted_conn (([1, 2, 3, 4, 5], []), zero_counters) some_calls))) 2) = 3
   \<and> bytes_read (fst (conn_run chunky_conn ([1, 2, 3, 4, 5], []) some_calls)) = 5
   \<and> bytes_written (fst (conn_run chunky_conn ([1, 2, 3, 4, 5], []) some_calls)) = 3"
proof -
  let ?s = "([1, 2, 3, 4, 5], []) :: bytes \<times> bytes"
  have k: "Connection counted_conn = chunky_conn"
    by (simp add: counted_conn_def)
  have br: "bytes_read (fst (conn_run chunky_conn ?s some_calls)) = 5"
    and bw: "bytes_written (fst (conn_run chunky_conn ?s some_calls)) = 3"
    by (simp_all add: some_calls_reports)
  have hyp: "ReadCounter counted_conn = Some 1 \<and> WriteCounter counted_conn = Some 2 \<and> (1::nat) \<noteq> 2
      \<and> cnt_value zero_counters 1 = 0 \<and> cnt_value zero_counters 2 = 0
      \<and> 0 \<le> bytes_read (fst (conn_run (Connection counted_conn) ?s some_calls))
      \<and> bytes_read (fst (conn_run (Connection counted_conn) ?s some_calls)) < 2 ^ 63
      \<and> 0 \<le> bytes_written (fst (conn_run (Connection counted_conn) ?s some_calls))
      \<and> bytes_written (fst (conn_run (Connection counted_conn) ?s some_calls)) < 2 ^ 63"
    by (simp add: k br bw) (simp add: counted_conn_def zero_counters_def)
  have "sint (cnt_value (snd (snd (NoCopy_run counted_conn (?s, zero_counters) some_calls))) 1)
          = bytes_read (fst (conn_run (Connection counted_conn) ?s some_calls))
        \<and> sint (cnt_value (snd (snd (NoCopy_run counted_conn (?s, zero_counters) some_calls))) 2)
          = bytes_written (fst (conn_run (Connection counted_conn) ?s some_calls))"
    using NoCopy_counters_count_reported_bytes [of counted_conn ?s zero_counters some_calls] hyp
    by blast
  then show ?thesis
    by (simp only: k br bw simp_thms)
qed

text \<open>
  C10. \<open>Read\<close> and \<open>Write\<close> of the wrapper hand back what the wrapped connection's
  call produced (the outcome with its byte count and error, the buffer, the connection
  state) whether or not counters are present, and with a nil counter the counter store
  is left as it was: no \<open>Add\<close> is made.
\<close>

theorem NoCopyConnection_transparent:
  "(\<exists>cs1. NoCopyConnection_Read c (s, cs) b
            = (fst (conn_Read (Connection c) s b), fst (snd (conn_Read (Connection c) s b)),
               snd (snd (conn_Read (Connection c) s b)), cs1)
          \<and> (ReadCounter c = None \<longrightarrow> cs1 = cs))
   \<and> (\<exists>cs2. NoCopyConnection_Write c (s, cs) b
            = (fst (conn_Write (Connection c) s b), snd (conn_Write (Connection c) s b), cs2)
          \<and> (WriteCounter c = None \<longrightarrow> cs2 = cs))"
  by (auto simp: NoCopyConnection_Read_def NoCopyConnection_Write_def
      split: prod.splits outcome.splits option.splits)

theorem NoCopyConnection_transparent_witness:
  "ReadCounter uncounted_conn = None \<and> WriteCounter uncounted_conn = None
   \<and> NoCopyConnection_Read uncounted_conn (([1, 2, 3, 4, 5], []), zero_counters) [0, 0, 0, 0]
       = (Returns (3, None), [1, 2, 3, 0], ([4, 5], []), zero_counters)
   \<and> NoCopyConnection_Write uncounted_conn (([], []), zero_counters) [9, 9, 9]
       = (Returns (2, Some short_write), ([], [9, 9]), zero_counters)"
  using NoCopyConnection_transparent
          [of uncounted_conn "([1, 2, 3, 4, 5], [])" zero_counters "[0, 0, 0, 0]"]
        NoCopyConnection_transparent
          [of uncounted_conn "([], [])" zero_counters "[9, 9, 9]"]
  by (simp add: uncounted_conn_def chunky_conn_def)

section \<open>Properties of the request handlers\<close>

lemmas std_parse_defs =
  std_net_def std_ParseAddress_def std_ParseDestination_def std_DestinationFromAddr_def
  std_ParseXForwardedFor_def ParseIPv4_def TrimSpace_def octet_def digit_def

lemmas example_defs =
  example_listener_def example_config_def example_request_def example_context_def
  Listener_Addr_def fresh_response_def strings_HasPrefix_def done_New_def

text \<open>
  C5. A request whose host the configuration does not accept, or whose path does not
  start with the configured prefix, is answered with status 404 by both handlers, and
  nothing else happens: no response header is set, nothing is flushed or logged, and
  the per-connection callback is not invoked.
\<close>

theorem invalid_requests_rejected:
  "(\<not> isValidHost (l_config l) (rc_Host c)
      \<or> \<not> strings_HasPrefix (rc_Path c) (getNormalizedPath (l_config l))
    \<longrightarrow> serverNb nl l c = request_rejected)
   \<and> (\<not> isValidHost (l_config l) (Host request)
      \<or> \<not> strings_HasPrefix (URL_Path request) (getNormalizedPath (l_config l))
    \<longrightarrow> ServeHTTP nl l fl request = request_rejected)"
  by (simp add: serverNb_def ServeHTTP_def serverNb_rejected_def ServeHTTP_rejected_def
      request_rejected_def fresh_response_def)

theorem invalid_requests_rejected_witness:
  "\<not> isValidHost (l_config example_listener) (rc_Host (example_context\<lparr>rc_Host := ''example.org''\<rparr>))
   \<and> serverNb std_net example_listener (example_context\<lparr>rc_Host := ''example.org''\<rparr>) = request_rejected
   \<and> \<not> strings_HasPrefix (URL_Path (example_request\<lparr>URL_Path := ''/other''\<rparr>))
         (getNormalizedPath (l_config example_listener))
   \<and> ServeHTTP std_net example_listener True (example_request\<lparr>URL_Path := ''/other''\<rparr>) = request_rejected"
proof -
  have h1: "\<not> isValidHost (l_config example_listener) (rc_Host (example_context\<lparr>rc_Host := ''example.org''\<rparr>))"
    by (simp add: example_listener_def example_config_def)
  have h2: "\<not> strings_HasPrefix (URL_Path (example_request\<lparr>URL_Path := ''/other''\<rparr>))
         (getNormalizedPath (l_config example_listener))"
    by (simp add: example_listener_def example_config_def strings_HasPrefix_def)
  show ?thesis
    using h1 h2
      invalid_requests_rejected [where l = example_listener and nl = std_net and fl = True
        and c = "example_context\<lparr>rc_Host := ''example.org''\<rparr>"
        and request = "example_request\<lparr>URL_Path := ''/other''\<rparr>"]
    by blast
qed

text \<open>
  Both handlers store each configured header value with a call that replaces the values
  already stored under the name, so the inner loop leaves the last value of the list.
\<close>

lemma range_Value_Header_Set:
  "range_Value (Header_Set nl) name vs h
     = (if vs = [] then h else h(CanonicalKey nl name \<mapsto> [last vs]))"
  by (induction vs arbitrary: h) (auto simp: Header_Set_def)

lemma range_Value_ctx_Header:
  "range_Value (ctx_Header nl) name vs h
     = (if vs = [] then h
        else if last vs = [] then h(CanonicalKey nl name := None)
        else h(CanonicalKey nl name \<mapsto> [last vs]))"
  by (induction vs arbitrary: h) (auto simp: ctx_Header_def)

text \<open>
  C4, evaluated on the example listener, whose configuration has the header
  \<open>X-Extra\<close> with the values \<open>a\<close> and \<open>b\<close>: for a validated request both
  handlers send \<open>X-Extra\<close> once, with the value \<open>b\<close>, and the value \<open>a\<close> does
  not occur in the response. The status is 200 and \<open>Cache-Control\<close> is sent once,
  with the value \<open>no-store\<close>.
\<close>

theorem multi_valued_header_keeps_last_value:
  "resp_header (sv_response (ServeHTTP std_net example_listener True example_request)) ''X-Extra''
     = Some [''b'']
   \<and> occurrences (resp_header (sv_response (ServeHTTP std_net example_listener True example_request)))
       ''X-Extra'' ''a'' = 0
   \<and> resp_header (sv_response (serverNb std_net example_listener example_context)) ''X-Extra''
     = Some [''b'']
   \<and> occurrences (resp_header (sv_response (serverNb std_net example_listener example_context)))
       ''X-Extra'' ''a'' = 0
   \<and> resp_status (sv_response (ServeHTTP std_net example_listener True example_request)) = Some 200
   \<and> resp_status (sv_response (serverNb std_net example_listener example_context)) = Some 200
   \<and> resp_header (sv_response (ServeHTTP std_net example_listener True example_request)) ''Cache-Control''
     = Some [''no-store'']
   \<and> resp_header (sv_response (serverNb std_net example_listener example_context)) ''Cache-Control''
     = Some [''no-store'']"
  by (simp add: ServeHTTP_def serverNb_def std_parse_defs example_defs Header_Set_def ctx_Header_def
      occurrences_def Let_def)

text \<open>
  The loop of \<open>serverNb\<close> over the entries of the forwarded-address header yields the
  first entry that parses as an IP address, with port 0, and keeps the address it
  started with when there is none.
\<close>

lemma range_list_first_IP:
  "range_list parse list remoteAddr
     = (case find Address_IsIP (map parse list) of
          Some (IPAddress ip) \<Rightarrow> TCPAddr ip 0
        | _ \<Rightarrow> remoteAddr)"
  by (induction list) (auto split: Address.splits)

text \<open>
  For a validated request with a forwarded-address header whose peer address resolves
  to an IP address, \<open>serverNb\<close> reports the first header entry that is an IP address.
  \<open>ServeHTTP\<close> reports the first candidate of the header parser if that is an IP
  address, and the peer address otherwise, whatever the later candidates are.
\<close>

lemma serverNb_forwarded_scan:
  assumes "isValidHost (l_config l) (rc_Host c)"
    and "strings_HasPrefix (rc_Path c) (getNormalizedPath (l_config l))"
    and "DestinationFromAddr nl (rc_RemoteAddr c) = Returns dest"
    and "dest_Address dest = IPAddress ip"
    and "rc_XForwardedFor c = Some xff"
  shows "remote_of (serverNb nl l c)
           = Some (case find Address_IsIP (map (ParseAddress nl) (Split xff CHR '','')) of
                     Some (IPAddress fip) \<Rightarrow> TCPAddr fip 0
                   | _ \<Rightarrow> TCPAddr ip (uint (dest_Port dest)))"
  using assms
  by (simp add: serverNb_def remote_of_def Let_def range_list_first_IP)

lemma ServeHTTP_forwarded_first_only:
  assumes "isValidHost (l_config l) (Host request)"
    and "strings_HasPrefix (URL_Path request) (getNormalizedPath (l_config l))"
    and "ParseDestination nl (RemoteAddr request) = Inr dest"
    and "dest_Address dest = IPAddress ip"
  shows "remote_of (ServeHTTP nl l fl request)
           = Some (case ParseXForwardedFor nl (req_Header request) of
                     IPAddress fip # rest \<Rightarrow> TCPAddr fip 0
                   | _ \<Rightarrow> TCPAddr ip (uint (dest_Port dest)))"
  using assms
  by (simp add: ServeHTTP_def remote_of_def Let_def split: list.splits Address.splits)

text \<open>
  C3, evaluated on a request from peer \<open>198.51.100.7:4444\<close> whose forwarded-address
  header is \<open>unknown, 203.0.113.5\<close>: \<open>serverNb\<close> scans the entries and reports
  \<open>203.0.113.5\<close> with port 0, whereas \<open>ServeHTTP\<close> looks at the first entry only
  and reports the peer address of the transport. On the header
  \<open>203.0.113.5, 10.0.0.1\<close> both report \<open>203.0.113.5\<close> with port 0.
\<close>

theorem ServeHTTP_reads_first_forwarded_entry_only:
  "remote_of (serverNb std_net example_listener (forwarded_context ''unknown, 203.0.113.5''))
     = Some (TCPAddr [203, 0, 113, 5] 0)
   \<and> remote_of (ServeHTTP std_net example_listener True (forwarded_request ''unknown, 203.0.113.5''))
     = Some (TCPAddr [198, 51, 100, 7] 4444)
   \<and> remote_of (serverNb std_net example_listener (forwarded_context ''203.0.113.5, 10.0.0.1''))
     = Some (TCPAddr [203, 0, 113, 5] 0)
   \<and> remote_of (ServeHTTP std_net example_listener True (forwarded_request ''203.0.113.5, 10.0.0.1''))
     = Some (TCPAddr [203, 0, 113, 5] 0)"
  by (simp add: ServeHTTP_def serverNb_def std_parse_defs example_defs forwarded_context_def
      forwarded_request_def remote_of_def Let_def)

text \<open>
  When \<open>ServeHTTP\<close> cannot parse the peer address of a validated request, it logs
  the failure, keeps the listener's local address as the address derived from the
  transport (the forwarded-address header is examined afterwards), and serves the
  request.
\<close>

lemma ServeHTTP_unparsed_peer_falls_back:
  assumes "isValidHost (l_config l) (Host request)"
    and "strings_HasPrefix (URL_Path request) (getNormalizedPath (l_config l))"
    and "ParseDestination nl (RemoteAddr request) = Inl err"
  shows "sv_outcome (ServeHTTP nl l fl request) = Returns ()
         \<and> sv_log (ServeHTTP nl l fl request)
             = [LogEntry (''failed to parse request remote addr: '' @ RemoteAddr request) (Some err)]
         \<and> resp_status (sv_response (ServeHTTP nl l fl request)) = Some 200
         \<and> map_option conn_local (sv_conn (ServeHTTP nl l fl request)) = Some (Listener_Addr l)
         \<and> remote_of (ServeHTTP nl l fl request)
             = Some (case ParseXForwardedFor nl (req_Header request) of
                       IPAddress ip # rest \<Rightarrow> TCPAddr ip 0
                     | _ \<Rightarrow> Listener_Addr l)"
  using assms
  by (simp add: ServeHTTP_def remote_of_def Let_def split: list.splits Address.splits)

text \<open>
  \<open>serverNb\<close> writes no log entry on any request. It assigns the listener's local
  address first and then replaces it with the address taken from the peer's
  destination: when that destination cannot be had, or has no IP address, the handler
  panics after the response has been started, and the callback is not invoked. When it
  has one, that address is reported.
\<close>

lemma serverNb_never_logs: "sv_log (serverNb nl l c) = []"
  by (simp add: serverNb_def serverNb_rejected_def Let_def split: outcome.splits)

lemma serverNb_peer_without_IP_panics:
  assumes "isValidHost (l_config l) (rc_Host c)"
    and "strings_HasPrefix (rc_Path c) (getNormalizedPath (l_config l))"
    and "DestinationFromAddr nl (rc_RemoteAddr c) = Panics
         \<or> (\<exists>dest. DestinationFromAddr nl (rc_RemoteAddr c) = Returns dest
                   \<and> Address_IP (dest_Address dest) = Panics)"
  shows "sv_outcome (serverNb nl l c) = Panics \<and> sv_conn (serverNb nl l c) = None"
  using assms by (auto simp: serverNb_def Let_def)

lemma serverNb_remote_without_header:
  assumes "isValidHost (l_config l) (rc_Host c)"
    and "strings_HasPrefix (rc_Path c) (getNormalizedPath (l_config l))"
    and "DestinationFromAddr nl (rc_RemoteAddr c) = Returns dest"
    and "dest_Address dest = IPAddress ip"
    and "rc_XForwardedFor c = None"
  shows "remote_of (serverNb nl l c) = Some (TCPAddr ip (uint (dest_Port dest)))"
  using assms by (simp add: serverNb_def remote_of_def Let_def)

text \<open>
  C8, evaluated on a listener bound to a local socket, which the port-0 branch of
  \<open>Listen\<close> builds, and a request whose peer is a local-socket address: the peer has
  no IP address, and \<open>serverNb\<close> panics without a log entry, without substituting the
  listener's local address and without invoking the callback. On a request whose peer
  address does not parse, \<open>ServeHTTP\<close> logs the failure, reports the listener's local
  address and serves the request.
\<close>

theorem serverNb_unix_peer_not_served:
  "local_of (Listen std_net (DomainAddress ''/run/xray.sock'') 0 (Some example_settings) ())
     = Some (Listener_Addr unix_listener)
   \<and> sv_outcome (serverNb std_net unix_listener unix_context) = Panics
   \<and> sv_log (serverNb std_net unix_listener unix_context) = []
   \<and> sv_conn (serverNb std_net unix_listener unix_context) = None
   \<and> sv_outcome (ServeHTTP std_net example_listener True unparsed_request) = Returns ()
   \<and> sv_log (ServeHTTP std_net example_listener True unparsed_request)
       = [LogEntry ''failed to parse request remote addr: @'' (Some (OtherError ''missing port''))]
   \<and> remote_of (ServeHTTP std_net example_listener True unparsed_request)
       = Some (Listener_Addr example_listener)"
  by (simp add: Listen_def local_of_def example_settings_def serverNb_def ServeHTTP_def
      unix_listener_def unix_context_def unparsed_request_def std_parse_defs example_defs
      remote_of_def Let_def)

section \<open>Properties of the listen entry point\<close>

text \<open>
  C7, as stated, fails on stream settings whose protocol settings are another
  transport's: the type assertion panics, and no error is returned.
\<close>

theorem Listen_bad_settings_counterexample:
  "\<not> has_HTTPConfig (Some foreign_settings)
   \<and> Listen std_net (IPAddress [192, 0, 2, 1]) 443 (Some foreign_settings) () = Panics
   \<and> \<not> returns_error (Listen std_net (IPAddress [192, 0, 2, 1]) 443 (Some foreign_settings) ())"
  by (simp add: Listen_def foreign_settings_def example_settings_def returns_error_def
      has_HTTPConfig_def)

text \<open>
  C7, amended. \<open>Listen\<close> never returns an error: every call that returns hands back
  a listener with its server engine set, together with a nil error. Stream settings
  that are nil or do not hold this transport's \<open>*Config\<close> are not reported as an
  error: the call panics.
\<close>

theorem Listen_returns_no_error:
  "\<not> returns_error (Listen nl address port streamSettings handler)
   \<and> (\<forall>r. Listen nl address port streamSettings handler = Returns r
          \<longrightarrow> ls_err r = None \<and> (\<exists>l. ls_listener r = Some l \<and> l_server l \<noteq> None))
   \<and> (\<not> has_HTTPConfig streamSettings
          \<longrightarrow> Listen nl address port streamSettings handler = Panics)"
  by (auto simp: Listen_def returns_error_def has_HTTPConfig_def Let_def
      split: option.splits protocol_settings.splits outcome.splits if_splits prod.splits)

theorem Listen_returns_no_error_witness:
  "(\<exists>r. Listen std_net (IPAddress [192, 0, 2, 1]) 443 (Some example_settings) () = Returns r
        \<and> ls_err r = None
        \<and> map_option l_local (ls_listener r) = Some (TCPAddr [192, 0, 2, 1] 443))
   \<and> \<not> returns_error (Listen std_net (IPAddress [192, 0, 2, 1]) 443 (Some example_settings) ())
   \<and> \<not> has_HTTPConfig (Some (example_settings\<lparr>ProtocolSettings := NilSettings\<rparr>))
   \<and> Listen std_net (IPAddress [192, 0, 2, 1]) 443
        (Some (example_settings\<lparr>ProtocolSettings := NilSettings\<rparr>)) () = Panics
   \<and> \<not> has_HTTPConfig None
   \<and> Listen std_net (IPAddress [192, 0, 2, 1]) 443 None () = Panics"
proof -
  obtain r where r: "Listen std_net (IPAddress [192, 0, 2, 1]) 443 (Some example_settings) () = Returns r"
    and loc: "map_option l_local (ls_listener r) = Some (TCPAddr [192, 0, 2, 1] 443)"
    by (simp add: Listen_def example_settings_def Let_def)
  have n1: "\<not> has_HTTPConfig (Some (example_settings\<lparr>ProtocolSettings := NilSettings\<rparr>))"
    by (simp add: has_HTTPConfig_def)
  have n2: "\<not> has_HTTPConfig None"
    by (simp add: has_HTTPConfig_def)
  show ?thesis
    using r loc n1 n2
      Listen_returns_no_error [of std_net "IPAddress [192, 0, 2, 1]" 443 "Some example_settings" "()"]
      Listen_returns_no_error [of std_net "IPAddress [192, 0, 2, 1]" 443
        "Some (example_settings\<lparr>ProtocolSettings := NilSettings\<rparr>)" "()"]
      Listen_returns_no_error [of std_net "IPAddress [192, 0, 2, 1]" 443 None "()"]
    by auto
qed

end
